theory Spec2Isabelle
  imports Main "HOL-Library.Sublist" "HOL-Library.Multiset" "HOL-Library.AList"
begin

section \<open>The profile README generator (scripts/generate-readme.js)\<close>

text \<open>
  The script reads \<^verbatim>\<open>src/data/cves.json\<close> and the markdown files below
  \<^verbatim>\<open>src/content/blog\<close>, and writes \<^verbatim>\<open>dist/github-profile-readme.md\<close>.

  A text is modelled as the list of the bytes of its UTF-8 encoding, which is what the files
  hold on disk. Every literal the script searches for is ASCII, so searching the bytes finds
  what searching the decoded string finds. The character classes \<^verbatim>\<open>\s\<close> and
  \<^verbatim>\<open>.\<close> are modelled on ASCII: white space and line separators beyond ASCII
  (U+00A0, U+2028, ...) count as ordinary characters here.
\<close>

subsection \<open>Character classes of the regular expressions\<close>

definition is_space :: "char \<Rightarrow> bool" where
  \<comment> \<open>\<^verbatim>\<open>\s\<close>: tab, line feed, vertical tab, form feed, carriage return, space\<close>
  "is_space c \<longleftrightarrow> c \<in> set [CHR 0x09, CHR 0x0A, CHR 0x0B, CHR 0x0C, CHR 0x0D, CHR 0x20]"

definition is_line_terminator :: "char \<Rightarrow> bool" where
  \<comment> \<open>what \<^verbatim>\<open>.\<close> refuses: line feed and carriage return\<close>
  "is_line_terminator c \<longleftrightarrow> c = CHR 0x0A \<or> c = CHR 0x0D"

definition is_quote :: "char \<Rightarrow> bool" where
  \<comment> \<open>the class \<^verbatim>\<open>["']\<close>\<close>
  "is_quote c \<longleftrightarrow> c = CHR 0x22 \<or> c = CHR 0x27"

subsection \<open>Searching a text\<close>

text \<open>
  \<open>split_first pat s\<close> cuts \<open>s\<close> at the leftmost occurrence of \<open>pat\<close>: the text before it
  and the text after it. \<open>None\<close> when \<open>pat\<close> does not occur.
\<close>

fun split_first :: "string \<Rightarrow> string \<Rightarrow> (string \<times> string) option" where
  "split_first pat [] = (if pat = [] then Some ([], []) else None)"
| "split_first pat (c # cs) =
     (if prefix pat (c # cs) then Some ([], drop (length pat) (c # cs))
      else map_option (\<lambda>(a, b). (c # a, b)) (split_first pat cs))"

text \<open>
  An unanchored regular expression is tried at every start position, leftmost first;
  \<open>m\<close> is the match anchored at the start of its argument.
\<close>

fun regex_search :: "(string \<Rightarrow> 'a option) \<Rightarrow> string \<Rightarrow> 'a option" where
  "regex_search m [] = m []"
| "regex_search m (c # cs) =
     (case m (c # cs) of Some r \<Rightarrow> Some r | None \<Rightarrow> regex_search m cs)"

subsection \<open>The header block and its fields\<close>

text \<open>
  \<^verbatim>\<open>content.match(/^---\n([\s\S]*?)\n---/)\<close>: the content starts with three dashes
  and a line feed, and the lazy group ends at the first line feed followed by three dashes.
  The result is the group.
\<close>

definition frontmatterMatch :: "string \<Rightarrow> string option" where
  "frontmatterMatch content =
     (if prefix ''---\<newline>'' content
      then map_option fst (split_first ''\<newline>---'' (drop 4 content))
      else None)"

text \<open>
  \<^verbatim>\<open>(.+?)["']\<close> after the first character of the group: the group grows one character
  at a time until a quote follows; a line terminator ends the attempt.
\<close>

fun lazy_to_quote :: "string \<Rightarrow> string option" where
  "lazy_to_quote [] = None"
| "lazy_to_quote (c # cs) =
     (if is_quote c then Some []
      else if is_line_terminator c then None
      else map_option ((#) c) (lazy_to_quote cs))"

text \<open>
  \<^verbatim>\<open>/title:\s*["'](.+?)["']/\<close> anchored at the start of \<open>s\<close>. The white space is
  taken whole (a shorter run would leave a space where the quote must be); the group holds
  at least one character, which may itself be a quote.
\<close>

definition title_at :: "string \<Rightarrow> string option" where
  "title_at s =
     (if prefix ''title:'' s then
        (case dropWhile is_space (drop 6 s) of
           q # c # cs \<Rightarrow>
             if is_quote q \<and> \<not> is_line_terminator c
             then map_option ((#) c) (lazy_to_quote cs) else None
         | _ \<Rightarrow> None)
      else None)"

text \<open>
  \<^verbatim>\<open>/date:\s*(.+)/\<close> anchored at the start of \<open>s\<close>. The greedy group runs to the
  end of the line. When nothing but white space follows the colon, the white space gives
  characters back from its end until the group can take one: the last of them that is no
  line terminator.
\<close>

definition date_at :: "string \<Rightarrow> string option" where
  "date_at s =
     (if prefix ''date:'' s then
        (let t = drop 5 s; w = takeWhile is_space t; r = dropWhile is_space t in
         if r \<noteq> [] then Some (takeWhile (\<lambda>c. \<not> is_line_terminator c) r)
         else (case dropWhile is_line_terminator (rev w) of
                 [] \<Rightarrow> None
               | c # _ \<Rightarrow> Some [c]))
      else None)"

definition titleMatch :: "string \<Rightarrow> string option" where
  "titleMatch frontmatter = regex_search title_at frontmatter"

definition dateMatch :: "string \<Rightarrow> string" where
  \<comment> \<open>\<^verbatim>\<open>frontmatter.match(/date:\s*(.+)/)?.[1] || ''\<close>\<close>
  "dateMatch frontmatter =
     (case regex_search date_at frontmatter of Some d \<Rightarrow> d | None \<Rightarrow> [])"

subsection \<open>The slug\<close>

definition replace_first :: "string \<Rightarrow> string \<Rightarrow> string \<Rightarrow> string" where
  \<comment> \<open>\<^verbatim>\<open>s.replace(pat, rep)\<close> with a string pattern: the first occurrence only\<close>
  "replace_first pat rep s =
     (case split_first pat s of None \<Rightarrow> s | Some (a, b) \<Rightarrow> a @ rep @ b)"

definition replace_backslashes :: "string \<Rightarrow> string" where
  \<comment> \<open>\<^verbatim>\<open>s.replace(/\\/g, '/')\<close>\<close>
  "replace_backslashes s = map (\<lambda>c. if c = CHR 0x5C then CHR ''/'' else c) s"

definition slug_of :: "string \<Rightarrow> string" where
  \<comment> \<open>\<^verbatim>\<open>relativePath.replace('.md', '').replace(/\\/g, '/')\<close>\<close>
  "slug_of relativePath = replace_backslashes (replace_first ''.md'' [] relativePath)"

subsection \<open>Sorting\<close>

text \<open>
  A number is an integer or NaN (\<open>None\<close>). The time value of a date is an integer number of
  milliseconds, or NaN for an invalid date.
\<close>

type_synonym number = "int option"

definition number_sub :: "number \<Rightarrow> number \<Rightarrow> number" where
  "number_sub x y = (case (x, y) of (Some a, Some b) \<Rightarrow> Some (a - b) | _ \<Rightarrow> None)"

definition SortCompare :: "('a \<Rightarrow> 'a \<Rightarrow> number) \<Rightarrow> 'a \<Rightarrow> 'a \<Rightarrow> int" where
  \<comment> \<open>ECMAScript's SortCompare: a comparator result of NaN counts as +0\<close>
  "SortCompare comparefn x y = (case comparefn x y of None \<Rightarrow> 0 | Some v \<Rightarrow> v)"

text \<open>
  \<^verbatim>\<open>Array.prototype.sort\<close> is stable, and for a consistent comparator every stable
  sort gives the same list. It is modelled by the stable insertion sort, which inserts the
  elements from the last to the first: an element goes in front of the first element it
  does not compare greater than. For a comparator that is not consistent (here: when a
  date is NaN) ECMAScript leaves the order to the implementation.
\<close>

fun sort_insert :: "('a \<Rightarrow> 'a \<Rightarrow> number) \<Rightarrow> 'a \<Rightarrow> 'a list \<Rightarrow> 'a list" where
  "sort_insert comparefn x [] = [x]"
| "sort_insert comparefn x (y # ys) =
     (if SortCompare comparefn x y \<le> 0 then x # y # ys
      else y # sort_insert comparefn x ys)"

definition js_sort :: "('a \<Rightarrow> 'a \<Rightarrow> number) \<Rightarrow> 'a list \<Rightarrow> 'a list" where
  "js_sort comparefn xs = foldr (sort_insert comparefn) xs []"

subsection \<open>What the runtime provides\<close>

text \<open>
  \<^verbatim>\<open>JSON.parse\<close>, the date parser behind \<^verbatim>\<open>new Date(string)\<close>,
  \<^verbatim>\<open>String.prototype.localeCompare\<close> and the path separator of \<^verbatim>\<open>path\<close>
  belong to the runtime, not to the repository: they are parameters of the model.
  An advisory is read with its five fields as the strings the template prints.
\<close>

record cve =
  cve_id :: string
  cve_date :: string
  cve_type :: string
  cve_target :: string
  cve_link :: string

record platform =
  JSON_parse :: "string \<Rightarrow> cve list option"
  Date_parse :: "string \<Rightarrow> number"
  localeCompare :: "string \<Rightarrow> string \<Rightarrow> int"
  sep :: char

subsection \<open>Finding the markdown files\<close>

datatype node = File string | Directory "(string \<times> node) list"

text \<open>
  \<open>fullPath\<close> is only ever used to read the file, so the model carries the content read
  from it. \<open>relative(baseDir, fullPath)\<close> is the names from the base directory down to
  the file, joined by the separator; \<open>dir\<close> holds the names down to the directory listed.
\<close>

record md_file =
  content :: string
  relativePath :: string

fun join_names :: "char \<Rightarrow> string list \<Rightarrow> string" where
  "join_names s [] = []"
| "join_names s [n] = n"
| "join_names s (n # ns) = n @ s # join_names s ns"

fun findMarkdownFiles :: "char \<Rightarrow> string list \<Rightarrow> (string \<times> node) list \<Rightarrow> md_file list" where
  "findMarkdownFiles s dir [] = []"
| "findMarkdownFiles s dir ((entry, Directory sub) # entries) =
     findMarkdownFiles s (dir @ [entry]) sub @ findMarkdownFiles s dir entries"
| "findMarkdownFiles s dir ((entry, File c) # entries) =
     (if suffix ''.md'' entry
      then [\<lparr>content = c, relativePath = join_names s (dir @ [entry])\<rparr>]
      else [])
     @ findMarkdownFiles s dir entries"

subsection \<open>The posts\<close>

record post =
  title :: string
  date :: number
  slug :: string

definition parse_post :: "platform \<Rightarrow> md_file \<Rightarrow> post option" where
  \<comment> \<open>the function mapped over \<open>blogFiles\<close>; \<open>None\<close> is its \<open>null\<close>\<close>
  "parse_post P f =
     (case frontmatterMatch (content f) of
        None \<Rightarrow> None
      | Some frontmatter \<Rightarrow>
          Some \<lparr>title = (case titleMatch frontmatter of Some t \<Rightarrow> t | None \<Rightarrow> []),
                date = Date_parse P (dateMatch frontmatter),
                slug = slug_of (relativePath f)\<rparr>)"

fun filter_Boolean :: "'a option list \<Rightarrow> 'a list" where
  "filter_Boolean [] = []"
| "filter_Boolean (None # xs) = filter_Boolean xs"
| "filter_Boolean (Some x # xs) = x # filter_Boolean xs"

definition blogPosts :: "platform \<Rightarrow> md_file list \<Rightarrow> post list" where
  "blogPosts P blogFiles =
     js_sort (\<lambda>a b. number_sub (date b) (date a))
       (filter_Boolean (map (parse_post P) blogFiles))"

subsection \<open>The advisories by year\<close>

datatype error = ReadError | SyntaxError | TypeError

text \<open>
  \<open>acc\<close> is a plain object: its own properties in insertion order, and behind them the
  properties every object inherits from \<^verbatim>\<open>Object.prototype\<close>, which are functions
  (one is an object): truthy, and without a \<^verbatim>\<open>push\<close>.
\<close>

definition Object_prototype_keys :: "string list" where
  "Object_prototype_keys =
     [''constructor'', ''__defineGetter__'', ''__defineSetter__'', ''hasOwnProperty'',
      ''__lookupGetter__'', ''__lookupSetter__'', ''isPrototypeOf'',
      ''propertyIsEnumerable'', ''toString'', ''valueOf'', ''__proto__'',
      ''toLocaleString'']"

datatype 'v property = Own 'v | Inherited | Undefined

definition get_property :: "(string \<times> 'v) list \<Rightarrow> string \<Rightarrow> 'v property" where
  "get_property obj k =
     (case map_of obj k of
        Some v \<Rightarrow> Own v
      | None \<Rightarrow> if k \<in> set Object_prototype_keys then Inherited else Undefined)"

definition group_step ::
  "(string \<times> cve list) list \<Rightarrow> cve \<Rightarrow> error + (string \<times> cve list) list" where
  \<comment> \<open>the reducer: \<^verbatim>\<open>if (!acc[year]) acc[year] = []; acc[year].push(cve)\<close>\<close>
  "group_step acc c =
     (let year = cve_date c;
          acc1 = (if get_property acc year = Undefined then acc @ [(year, [])] else acc)
      in case get_property acc1 year of
           Own g \<Rightarrow> Inr (AList.update year (g @ [c]) acc1)
         | _ \<Rightarrow> Inl TypeError)"

fun reduce_group ::
  "(string \<times> cve list) list \<Rightarrow> cve list \<Rightarrow> error + (string \<times> cve list) list" where
  "reduce_group acc [] = Inr acc"
| "reduce_group acc (c # cs) =
     (case group_step acc c of Inl e \<Rightarrow> Inl e | Inr acc' \<Rightarrow> reduce_group acc' cs)"

definition cvesByYear :: "cve list \<Rightarrow> error + (string \<times> cve list) list" where
  "cvesByYear cves = reduce_group [] cves"

text \<open>
  \<^verbatim>\<open>Object.keys\<close> lists the keys that are array indices first (canonical decimal
  numerals below \<open>2\<^sup>3\<^sup>2 - 1\<close>), in ascending numeric order, then the other keys in
  insertion order.
\<close>

definition is_digit :: "char \<Rightarrow> bool" where
  "is_digit c \<longleftrightarrow> 48 \<le> (of_char c :: int) \<and> (of_char c :: int) \<le> 57"

definition int_of_digits :: "string \<Rightarrow> int" where
  "int_of_digits k = foldl (\<lambda>n c. 10 * n + (of_char c - 48)) 0 k"

definition is_array_index :: "string \<Rightarrow> bool" where
  "is_array_index k \<longleftrightarrow>
     k \<noteq> [] \<and> list_all is_digit k
     \<and> (if hd k = CHR ''0'' then k = ''0'' else True)
     \<and> int_of_digits k < 2 ^ 32 - 1"

definition Object_keys :: "(string \<times> 'v) list \<Rightarrow> string list" where
  "Object_keys obj =
     (let ks = map fst obj
      in sort_key int_of_digits (filter is_array_index ks)
         @ filter (\<lambda>k. \<not> is_array_index k) ks)"

definition years :: "platform \<Rightarrow> (string \<times> cve list) list \<Rightarrow> string list" where
  \<comment> \<open>\<^verbatim>\<open>Object.keys(cvesByYear).sort((a, b) => b.localeCompare(a))\<close>\<close>
  "years P groups = js_sort (\<lambda>a b. Some (localeCompare P b a)) (Object_keys groups)"

subsection \<open>The document\<close>

definition post_url :: "post \<Rightarrow> string" where
  "post_url p = ''https://jomar.fr/blog/'' @ slug p @ ''/''"

definition post_line :: "post \<Rightarrow> string" where
  "post_line p = ''  * ['' @ title p @ '']('' @ post_url p @ '')\<newline>''"

definition cve_line :: "cve \<Rightarrow> string" where
  "cve_line c =
     ''  * ['' @ cve_id c @ '']('' @ cve_link c @ '') - '' @ cve_type c
     @ '' in ['' @ cve_target c @ '']('' @ cve_link c @ '')\<newline>''"

definition year_cves :: "(string \<times> cve list) list \<Rightarrow> string \<Rightarrow> cve list" where
  \<comment> \<open>\<open>cvesByYear[year]\<close> for a year that \<open>Object.keys\<close> listed\<close>
  "year_cves groups year = (case map_of groups year of Some g \<Rightarrow> g | None \<Rightarrow> [])"

definition year_section :: "(string \<times> cve list) list \<Rightarrow> string \<Rightarrow> string" where
  "year_section groups year =
     ''<details>\<newline>  <summary>'' @ year @ ''</summary>\<newline>\<newline>''
     @ concat (map cve_line (year_cves groups year))
     @ ''</details>\<newline>\<newline>''"

definition readme_preamble :: string where
  \<comment> \<open>the template literal of lines 70 to 112, line by line\<close>
  \<open>readme_preamble = concat
    [''<h1 align="center">Hi '' @ [CHR 0xF0, CHR 0x9F, CHR 0x91, CHR 0x8B] @ '', I'm Jomar</h1>\<newline>'',
     ''\<newline>'',
     ''<p align="center"><img src="https://readme-typing-svg.demolab.com?font=Fira+Code&weight=700&size=17&pause=1000&color=E84A4A&center=true&multiline=true&random=false&width=435&lines=A+passionate+Research+Engineer+at+Tenable+;and+BugHunter" alt="Typing SVG" /></p>\<newline>'',
     ''\<newline>'',
     ''<p align="center">\<newline>'',
     ''  <a href="mailto:contact@jomar.fr">\<newline>'',
     ''    <img src="https://img.shields.io/badge/contact@jomar.fr-0078D4?style=for-the-badge&logo=Gmail&logoColor=00AEFF&labelColor=black&color=black">\<newline>'',
     ''  </a>\<newline>'',
     ''  <a href="https://www.jomar.fr/">\<newline>'',
     ''    <img src="https://img.shields.io/badge/-Website-blue?style=for-the-badge&logo=Safari&logoColor=00AEFF&labelColor=black&color=black">\<newline>'',
     ''  </a>\<newline>'',
     ''  <a href="https://www.linkedin.com/in/joshua-martinelle-a34911133/">\<newline>'',
     ''    <img src="https://img.shields.io/badge/-Linkedin-blue?style=for-the-badge&logo=Linkedin&logoColor=00AEFF&labelColor=black&color=black">\<newline>'',
     ''  </a>\<newline>'',
     ''  <a href="https://x.com/J0_mart">\<newline>'',
     ''    <img src="https://img.shields.io/badge/-J0_mart-blue?style=for-the-badge&logo=X&logoColor=00AEFF&labelColor=black&color=black">\<newline>'',
     ''  </a>\<newline>'',
     ''</p>\<newline>'',
     ''\<newline>'',
     ''<p align="center">\<newline>'',
     ''  <a href="https://yeswehack.com/hunters/jomar">YesWeHack</a> '' @ [CHR 0xE2, CHR 0x80, CHR 0xA2] @ ''\<newline>'',
     ''  <a href="https://app.intigriti.com/profile/jomar">Intigriti</a> '' @ [CHR 0xE2, CHR 0x80, CHR 0xA2] @ ''\<newline>'',
     ''  <a href="https://pentesterlab.com/profile/J0mar">Pentesterlab</a>\<newline>'',
     ''</p>\<newline>'',
     ''\<newline>'',
     ''<p>Hacker at '' @ [CHR 0xE2, CHR 0x9D, CHR 0xA4] @ [CHR 0xEF, CHR 0xB8, CHR 0x8F] @ '', I bring my passion for cybersecurity to my work every day. With a background in bugbounty, I have a unique perspective on how to identify and remediate potential threats to systems. I have contributed to several projects, including the development of new open source tools, scripts or the discovery of vulnerabilities.</p>\<newline>'',
     ''\<newline>'',
     ''<h2>'' @ [CHR 0xF0, CHR 0x9F, CHR 0xA7, CHR 0xB0] @ '' My everyday toolkit</h2>\<newline>'',
     ''\<newline>'',
     ''<p align="center">\<newline>'',
     ''  <img src="https://skillicons.dev/icons?i=ruby,rails,php,laravel,go,python,javascript,astro" />\<newline>'',
     ''</p>\<newline>'',
     ''\<newline>'',
     ''<p align="center">\<newline>'',
     ''  <img src="https://skillicons.dev/icons?i=bash,docker,git,linux,nginx,postgres,mysql" />\<newline>'',
     ''</p>\<newline>'',
     ''\<newline>'',
     ''<h2>'' @ [CHR 0xF0, CHR 0x9F, CHR 0x93, CHR 0x9D] @ '' Blog Posts & External contribution</h2>\<newline>'',
     ''\<newline>'',
     ''<details>\<newline>'',
     ''  <summary>My latest personal blog posts</summary>\<newline>'',
     ''\<newline>'']\<close>

definition readme_contributions :: string where
  \<comment> \<open>the template literal of lines 119 to 159\<close>
  \<open>readme_contributions = concat
    [''</details>\<newline>'',
     ''\<newline>'',
     ''<details>\<newline>'',
     ''  <summary>Tenable Blog</summary>\<newline>'',
     ''\<newline>'',
     ''  * [Bypass a Patch for BentoML's Server-Side Request Forgery Vulnerability CVE-2025-54381](https://www.tenable.com/blog/how-tenable-bypassed-patch-for-bentoml-ssrf-vulnerability-CVE-2025-54381)\<newline>'',
     ''  * [Identifying Web Cache Poisoning and Web Cache Deception](https://www.tenable.com/blog/identifying-web-cache-poisoning-and-web-cache-deception-how-tenable-web-app-scanning-can-help)\<newline>'',
     ''  * [Password Management and Authentication Best Practices](https://www.tenable.com/blog/password-management-and-authentication-best-practices)\<newline>'',
     ''  * [Identifying XML External Entity](https://www.tenable.com/blog/identifying-xml-external-entity-how-tenable-io-web-application-scanning-can-help)\<newline>'',
     ''  * [Identifying Server Side Request Forgery](https://www.tenable.com/blog/identifying-server-side-request-forgery-how-tenable-io-web-application-scanning-can-help)\<newline>'',
     ''</details>\<newline>'',
     ''\<newline>'',
     ''<details>\<newline>'',
     ''  <summary>Tenable Medium</summary>\<newline>'',
     ''\<newline>'',
     ''  * [CVE-2024'' @ [CHR 0xE2, CHR 0x80, CHR 0x93] @ ''8182 : Accidental Discovery of an Unauthenticated DoS](https://medium.com/tenable-techblog/cve-2024-8182-accidental-discovery-of-an-unauthenticated-dos-1d89947a09a4)\<newline>'',
     ''  * [Solidus '' @ [CHR 0xE2, CHR 0x80, CHR 0x94] @ '' Code Review](https://medium.com/tenable-techblog/solidus-code-review-7e9b606a5c10)\<newline>'',
     ''  * [WordPress MyCalendar Plugin '' @ [CHR 0xE2, CHR 0x80, CHR 0x94] @ '' Unauthenticated SQL Injection(CVE-2023'' @ [CHR 0xE2, CHR 0x80, CHR 0x93] @ ''6360)](https://medium.com/tenable-techblog/wordpress-mycalendar-plugin-unauthenticated-sql-injection-cve-2023-6360-d272887ddf12)\<newline>'',
     ''  * [WordPress BuddyForms Plugin '' @ [CHR 0xE2, CHR 0x80, CHR 0x94] @ '' Unauthenticated Insecure Deserialization (CVE-2023'' @ [CHR 0xE2, CHR 0x80, CHR 0x93] @ ''26326)](https://medium.com/tenable-techblog/wordpress-buddyforms-plugin-unauthenticated-insecure-deserialization-cve-2023-26326-3becb5575ed8)\<newline>'',
     ''  * [Multiples WordPress plugins CVE analysis](https://medium.com/tenable-techblog/multiples-wordpress-plugins-cve-analysis-28843a8b8fd0)\<newline>'',
     ''  * [Wordpress 6.0.3 Patch Analysis](https://medium.com/tenable-techblog/wordpress-6-0-3-patch-analysis-6a2c0707cda6)\<newline>'',
     ''</details>\<newline>'',
     ''\<newline>'',
     ''<details>\<newline>'',
     ''  <summary>BugBountyHunter Website</summary>\<newline>'',
     ''\<newline>'',
     ''  * [Mass assignment and learning new things](https://www.bugbountyhunter.com/articles/?on=mass-assignment-and-learning-new-things)\<newline>'',
     ''  * [My Methodology during Firstblood](https://www.bugbountyhunter.com/articles/?on=firstbloodhackers)\<newline>'',
     ''</details>\<newline>'',
     ''\<newline>'',
     ''<details>\<newline>'',
     ''  <summary>Synetis Blog</summary>\<newline>'',
     ''\<newline>'',
     ''  * [AMSI et Antivirus : des protections loin d'' @ [CHR 0x27] @ [CHR 0xC3, CHR 0xAA] @ ''tre suffisantes !](https://www.synetis.com/amsi-antivirus/)\<newline>'',
     ''  * [Gestion des mots de passe c'' @ [CHR 0xC3, CHR 0xB4] @ ''t'' @ [CHR 0xC3, CHR 0xA9] @ '' backend, Hash & Assaisonnement !](https://www.synetis.com/gestion-mdp/)\<newline>'',
     ''  * [Illustrations d'attaques sur le wifi](https://www.synetis.com/illustrations-dattaques-sur-le-wifi/)\<newline>'',
     ''</details>\<newline>'',
     ''\<newline>'',
     ''<h2>'' @ [CHR 0xF0, CHR 0x9F, CHR 0x8F, CHR 0x86] @ '' CVE & Security Research</h2>\<newline>'',
     ''\<newline>'']\<close>

definition readme_statistics :: string where
  \<comment> \<open>the template literal of lines 170 to 173\<close>
  \<open>readme_statistics = concat
    [''<h2>'' @ [CHR 0xF0, CHR 0x9F, CHR 0x93, CHR 0x8A] @ '' Github Statistics</h2>\<newline>'',
     ''\<newline>'',
     ''![Stats](./profile/stats.svg)\<newline>'']\<close>

definition readme :: "post list \<Rightarrow> (string \<times> cve list) list \<Rightarrow> string list \<Rightarrow> string" where
  "readme posts groups ys =
     readme_preamble @ concat (map post_line posts)
     @ readme_contributions @ concat (map (year_section groups) ys)
     @ readme_statistics"

subsection \<open>The run\<close>

text \<open>
  The world of a run: the advisory file (\<open>None\<close> when it cannot be read), the entries of
  the blog directory, and the output file (\<open>None\<close> while it does not exist). The model
  covers the runs in which the blog tree can be read and the output directory exists; the
  message on the console is left out. An uncaught exception ends the process with exit
  code 1.
\<close>

record world =
  cves_json :: "string option"
  blog :: "(string \<times> node) list"
  output_file :: "string option"

datatype status = Completed | Uncaught error

definition exit_code :: "status \<Rightarrow> nat" where
  "exit_code s = (case s of Completed \<Rightarrow> 0 | Uncaught e \<Rightarrow> 1)"

definition script :: "platform \<Rightarrow> world \<Rightarrow> status \<times> world" where
  "script P w =
     (case cves_json w of
        None \<Rightarrow> (Uncaught ReadError, w)
      | Some text \<Rightarrow>
          (case JSON_parse P text of
             None \<Rightarrow> (Uncaught SyntaxError, w)
           | Some cves \<Rightarrow>
               (let blogFiles = findMarkdownFiles (sep P) [] (blog w);
                    posts = blogPosts P blogFiles
                in case cvesByYear cves of
                     Inl e \<Rightarrow> (Uncaught e, w)
                   | Inr groups \<Rightarrow>
                       (Completed,
                        w\<lparr>output_file := Some (readme posts groups (years P groups))\<rparr>))))"

subsection \<open>The slug and the order as the specification words them\<close>




definition not_older :: "post \<Rightarrow> post \<Rightarrow> bool" where
  \<comment> \<open>\<open>a\<close> may stand before \<open>b\<close> in a list that is non-increasing by date;
      a comparison with NaN is false\<close>
  "not_older a b = (case (date a, date b) of (Some x, Some y) \<Rightarrow> y \<le> x | _ \<Rightarrow> False)"


subsection \<open>A runtime and inputs for the examples\<close>

text \<open>
  A small runtime: dates as \<^verbatim>\<open>Date.parse\<close> reads them for the three date strings
  used below (and the empty string, which is no date), strings compared by code unit, the
  POSIX separator, and the parse of three advisory files; any other text, such as
  \<^verbatim>\<open>{\<close>, is taken for malformed.
\<close>

definition demo_Date_parse :: "string \<Rightarrow> number" where
  "demo_Date_parse s =
     map_of [(''2025-03-29'', 1743206400000), (''2025-04-12'', 1744416000000),
             (''2025-05-18'', 1747526400000)] s"

fun demo_compare :: "string \<Rightarrow> string \<Rightarrow> int" where
  "demo_compare [] [] = 0"
| "demo_compare [] (y # ys) = - 1"
| "demo_compare (x # xs) [] = 1"
| "demo_compare (x # xs) (y # ys) =
     (if (of_char x :: int) < of_char y then - 1
      else if (of_char y :: int) < of_char x then 1
      else demo_compare xs ys)"

definition demo_cves :: "cve list" where
  "demo_cves =
     [\<lparr>cve_id = ''CVE-2023-6360'', cve_date = ''2023'', cve_type = ''SQL Injection'',
       cve_target = ''My Calendar'', cve_link = ''https://example.org/a''\<rparr>,
      \<lparr>cve_id = ''CVE-2024-8182'', cve_date = ''2024'', cve_type = ''DoS'',
       cve_target = ''Dify'', cve_link = ''https://example.org/b''\<rparr>,
      \<lparr>cve_id = ''CVE-2023-26326'', cve_date = ''2023'', cve_type = ''Deserialization'',
       cve_target = ''BuddyForms'', cve_link = ''https://example.org/c''\<rparr>]"

definition demo_json :: string where
  \<open>demo_json = concat
    [''[{"id":"CVE-2023-6360","date":"2023","type":"SQL Injection",'',
     ''"target":"My Calendar","link":"https://example.org/a"},'',
     ''{"id":"CVE-2024-8182","date":"2024","type":"DoS",'',
     ''"target":"Dify","link":"https://example.org/b"},'',
     ''{"id":"CVE-2023-26326","date":"2023","type":"Deserialization",'',
     ''"target":"BuddyForms","link":"https://example.org/c"}]'']\<close>

definition prototype_cves :: "cve list" where
  "prototype_cves =
     [\<lparr>cve_id = ''CVE-2024-0001'', cve_date = ''constructor'', cve_type = ''XSS'',
       cve_target = ''Example'', cve_link = ''https://example.org/d''\<rparr>]"

definition prototype_json :: string where
  \<open>prototype_json = concat
    [''[{"id":"CVE-2024-0001","date":"constructor","type":"XSS",'',
     ''"target":"Example","link":"https://example.org/d"}]'']\<close>

definition demo_JSON_parse :: "string \<Rightarrow> cve list option" where
  "demo_JSON_parse text =
     map_of [(''[]'', []), (demo_json, demo_cves), (prototype_json, prototype_cves)] text"

definition demo_platform :: platform where
  "demo_platform =
     \<lparr>JSON_parse = demo_JSON_parse, Date_parse = demo_Date_parse,
      localeCompare = demo_compare, sep = CHR ''/''\<rparr>"

definition april_post :: string where
  \<open>april_post = ''---\<newline>title: "April"\<newline>date: 2025-04-12\<newline>---\<newline>text''\<close>

definition may_post :: string where
  \<open>may_post = ''---\<newline>title: 'May'\<newline>date: 2025-05-18\<newline>---\<newline>text''\<close>

definition undated_post :: string where
  \<open>undated_post = ''---\<newline>draft: true\<newline>---\<newline>text''\<close>

definition headerless_post :: string where
  \<open>headerless_post = ''# Notes\<newline>title: "Notes"\<newline>date: 2025-03-29\<newline>''\<close>

section \<open>Properties\<close>

subsection \<open>The sort permutes, orders and is stable\<close>

lemma mset_sort_insert: "mset (sort_insert f x xs) = add_mset x (mset xs)"
  by (induction xs) simp_all

lemma mset_js_sort: "mset (js_sort f xs) = mset xs"
  by (induction xs) (simp_all add: js_sort_def mset_sort_insert)

lemma set_js_sort: "set (js_sort f xs) = set xs"
  by (metis mset_js_sort set_mset_mset)

lemma js_sort_Cons: "js_sort f (x # xs) = sort_insert f x (js_sort f xs)"
  by (simp add: js_sort_def)

lemma js_sort_Nil: "js_sort f [] = []"
  by (simp add: js_sort_def)

lemma set_sort_insert: "set (sort_insert f x xs) = insert x (set xs)"
  by (induction xs) auto

lemma sorted_sort_insert:
  assumes "sorted_wrt (\<lambda>a b. SortCompare f a b \<le> 0) xs"
    and total: "\<And>y. y \<in> set xs \<Longrightarrow> SortCompare f x y \<le> 0 \<or> SortCompare f y x \<le> 0"
    and trans: "\<And>y z. y \<in> set xs \<Longrightarrow> z \<in> set xs \<Longrightarrow> SortCompare f x y \<le> 0 \<Longrightarrow>
                  SortCompare f y z \<le> 0 \<Longrightarrow> SortCompare f x z \<le> 0"
  shows "sorted_wrt (\<lambda>a b. SortCompare f a b \<le> 0) (sort_insert f x xs)"
  using assms
proof (induction xs)
  case Nil
  show ?case by simp
next
  case (Cons y ys)
  show ?case
  proof (cases "SortCompare f x y \<le> 0")
    case True
    have "SortCompare f x z \<le> 0" if "z \<in> set ys" for z
    proof -
      have "SortCompare f y z \<le> 0" using Cons.prems(1) that by simp
      then show ?thesis using Cons.prems(3)[of y z] that True by simp
    qed
    with True Cons.prems(1) show ?thesis by simp
  next
    case False
    have yx: "SortCompare f y x \<le> 0" using Cons.prems(2)[of y] False by auto
    have "sorted_wrt (\<lambda>a b. SortCompare f a b \<le> 0) (sort_insert f x ys)"
    proof (rule Cons.IH)
      show "sorted_wrt (\<lambda>a b. SortCompare f a b \<le> 0) ys" using Cons.prems(1) by simp
      show "SortCompare f x z \<le> 0 \<or> SortCompare f z x \<le> 0" if "z \<in> set ys" for z
        using Cons.prems(2)[of z] that by simp
      show "SortCompare f x z \<le> 0" if "u \<in> set ys" "z \<in> set ys"
        "SortCompare f x u \<le> 0" "SortCompare f u z \<le> 0" for u z
        using Cons.prems(3)[of u z] that by simp
    qed
    with False yx Cons.prems(1) show ?thesis by (simp add: set_sort_insert)
  qed
qed

lemma sorted_js_sort:
  assumes total: "\<And>x y. x \<in> set xs \<Longrightarrow> y \<in> set xs \<Longrightarrow>
                    SortCompare f x y \<le> 0 \<or> SortCompare f y x \<le> 0"
    and trans: "\<And>x y z. x \<in> set xs \<Longrightarrow> y \<in> set xs \<Longrightarrow> z \<in> set xs \<Longrightarrow>
                  SortCompare f x y \<le> 0 \<Longrightarrow> SortCompare f y z \<le> 0 \<Longrightarrow> SortCompare f x z \<le> 0"
  shows "sorted_wrt (\<lambda>a b. SortCompare f a b \<le> 0) (js_sort f xs)"
  using assms
proof (induction xs)
  case Nil
  show ?case by (simp add: js_sort_Nil)
next
  case (Cons x xs)
  have IH: "sorted_wrt (\<lambda>a b. SortCompare f a b \<le> 0) (js_sort f xs)"
  proof (rule Cons.IH)
    show "SortCompare f a b \<le> 0 \<or> SortCompare f b a \<le> 0"
      if "a \<in> set xs" "b \<in> set xs" for a b
      using Cons.prems(1)[of a b] that by simp
    show "SortCompare f a c \<le> 0"
      if "a \<in> set xs" "b \<in> set xs" "c \<in> set xs"
        "SortCompare f a b \<le> 0" "SortCompare f b c \<le> 0" for a b c
      using Cons.prems(2)[of a b c] that by simp
  qed
  have "sorted_wrt (\<lambda>a b. SortCompare f a b \<le> 0) (sort_insert f x (js_sort f xs))"
  proof (rule sorted_sort_insert[OF IH])
    show "SortCompare f x y \<le> 0 \<or> SortCompare f y x \<le> 0"
      if "y \<in> set (js_sort f xs)" for y
      using Cons.prems(1)[of x y] that by (simp add: set_js_sort)
    show "SortCompare f x z \<le> 0"
      if "y \<in> set (js_sort f xs)" "z \<in> set (js_sort f xs)"
        "SortCompare f x y \<le> 0" "SortCompare f y z \<le> 0" for y z
      using Cons.prems(2)[of x y z] that by (simp add: set_js_sort)
  qed
  then show ?case by (simp add: js_sort_Cons)
qed

lemma filter_sort_insert:
  assumes "\<And>y. y \<in> set xs \<Longrightarrow> Q x \<Longrightarrow> Q y \<Longrightarrow> SortCompare f x y \<le> 0"
  shows "filter Q (sort_insert f x xs) = (if Q x then x # filter Q xs else filter Q xs)"
  using assms by (induction xs) auto

lemma js_sort_stable:
  assumes "\<And>x y. x \<in> set xs \<Longrightarrow> y \<in> set xs \<Longrightarrow> Q x \<Longrightarrow> Q y \<Longrightarrow> SortCompare f x y \<le> 0"
  shows "filter Q (js_sort f xs) = filter Q xs"
  using assms
proof (induction xs)
  case Nil
  show ?case by (simp add: js_sort_Nil)
next
  case (Cons x xs)
  have IH: "filter Q (js_sort f xs) = filter Q xs"
    by (rule Cons.IH) (use Cons.prems in simp)
  have "filter Q (sort_insert f x (js_sort f xs))
        = (if Q x then x # filter Q (js_sort f xs) else filter Q (js_sort f xs))"
  proof (rule filter_sort_insert)
    show "SortCompare f x y \<le> 0" if "y \<in> set (js_sort f xs)" "Q x" "Q y" for y
      using Cons.prems[of x y] that by (simp add: set_js_sort)
  qed
  with IH show ?case by (simp add: js_sort_Cons)
qed

subsection \<open>The post list\<close>

lemma filter_Boolean_append: "filter_Boolean (xs @ ys) = filter_Boolean xs @ filter_Boolean ys"
  by (induction xs rule: filter_Boolean.induct) simp_all

lemma set_filter_Boolean: "set (filter_Boolean xs) = {x. Some x \<in> set xs}"
  by (induction xs rule: filter_Boolean.induct) auto


lemma blogPosts_skip:
  "parse_post P f = None \<Longrightarrow> blogPosts P (xs @ f # ys) = blogPosts P (xs @ ys)"
  by (simp add: blogPosts_def filter_Boolean_append)

lemma blogPosts_stable:
  "filter (\<lambda>p. date p = d) (blogPosts P fs)
   = filter (\<lambda>p. date p = d) (filter_Boolean (map (parse_post P) fs))"
  unfolding blogPosts_def
  by (rule js_sort_stable) (auto simp: SortCompare_def number_sub_def split: option.splits)

lemma blogPosts_sorted:
  assumes "\<And>p. p \<in> set (filter_Boolean (map (parse_post P) fs)) \<Longrightarrow> date p \<noteq> None"
  shows "sorted_wrt not_older (blogPosts P fs)"
proof -
  let ?f = "\<lambda>a b. number_sub (date b) (date a)"
  let ?xs = "filter_Boolean (map (parse_post P) fs)"
  have cmp: "SortCompare ?f a b \<le> 0 \<longleftrightarrow> not_older a b" if "a \<in> set ?xs" "b \<in> set ?xs" for a b
    using assms[OF that(1)] assms[OF that(2)]
    by (auto simp: SortCompare_def number_sub_def not_older_def)
  have "sorted_wrt (\<lambda>a b. SortCompare ?f a b \<le> 0) (js_sort ?f ?xs)"
  proof (rule sorted_js_sort)
    fix x y assume "x \<in> set ?xs" "y \<in> set ?xs"
    then show "SortCompare ?f x y \<le> 0 \<or> SortCompare ?f y x \<le> 0"
      using assms[of x] assms[of y] by (auto simp: SortCompare_def number_sub_def)
  next
    fix x y z assume "x \<in> set ?xs" "y \<in> set ?xs" "z \<in> set ?xs"
      "SortCompare ?f x y \<le> 0" "SortCompare ?f y z \<le> 0"
    then show "SortCompare ?f x z \<le> 0"
      using assms[of x] assms[of y] assms[of z] by (auto simp: SortCompare_def number_sub_def)
  qed
  then have "sorted_wrt not_older (js_sort ?f ?xs)"
    by (rule sorted_wrt_mono_rel[rotated]) (use cmp in \<open>auto simp: set_js_sort\<close>)
  then show ?thesis by (simp add: blogPosts_def)
qed

subsection \<open>The grouping of the advisories\<close>

lemma year_cves_update:
  "year_cves (AList.update k v al) y = (if y = k then v else year_cves al y)"
  by (simp add: year_cves_def update_conv')

lemma update_snoc:
  "map_of al k = None \<Longrightarrow> AList.update k v (al @ [(k, w)]) = AList.update k v al"
  by (induction al) (auto split: if_splits)

lemma group_step_form:
  assumes "group_step acc c = Inr acc'"
  shows "acc' = AList.update (cve_date c) (year_cves acc (cve_date c) @ [c]) acc"
proof (cases "map_of acc (cve_date c)")
  case None
  have "map_of (acc @ [(cve_date c, [])]) (cve_date c) = Some []"
    using None by (simp add: map_add_def)
  with assms None show ?thesis
    by (simp add: group_step_def get_property_def Let_def year_cves_def update_snoc
        split: if_splits)
next
  case (Some g)
  with assms show ?thesis
    by (simp add: group_step_def get_property_def Let_def year_cves_def)
qed

lemma group_step_Inr:
  assumes "group_step acc c = Inr acc'" and "distinct (map fst acc)"
  shows "distinct (map fst acc')"
    and "year_cves acc' y = year_cves acc y @ (if cve_date c = y then [c] else [])"
    and "fst ` set acc' = insert (cve_date c) (fst ` set acc)"
  unfolding group_step_form[OF assms(1)]
  using assms(2) by (auto simp: year_cves_update update_keys dom_update)

lemma group_step_succeeds:
  assumes "cve_date c \<notin> set Object_prototype_keys"
  shows "\<exists>acc'. group_step acc c = Inr acc'"
proof (cases "map_of acc (cve_date c)")
  case None
  have "map_of (acc @ [(cve_date c, [])]) (cve_date c) = Some []"
    using None by (simp add: map_add_def)
  with assms None show ?thesis
    by (simp add: group_step_def get_property_def Let_def)
next
  case (Some g)
  with assms show ?thesis
    by (simp add: group_step_def get_property_def Let_def)
qed

lemma group_step_fails:
  assumes "cve_date c \<in> set Object_prototype_keys" and "map_of acc (cve_date c) = None"
  shows "group_step acc c = Inl TypeError"
  using assms by (simp add: group_step_def get_property_def Let_def)


lemma reduce_group_succeeds:
  assumes "set (map cve_date cs) \<inter> set Object_prototype_keys = {}"
  shows "\<exists>groups. reduce_group acc cs = Inr groups"
  using assms
proof (induction cs arbitrary: acc)
  case Nil
  then show ?case by simp
next
  case (Cons c cs)
  then have "cve_date c \<notin> set Object_prototype_keys" by auto
  from group_step_succeeds[OF this] obtain acc' where "group_step acc c = Inr acc'" by blast
  moreover have "\<exists>groups. reduce_group acc' cs = Inr groups"
    using Cons by auto
  ultimately show ?case by simp
qed


subsection \<open>The year headings\<close>









subsection \<open>The comparison of the example runtime is consistent\<close>





lemma parse_post_None_iff: "parse_post P f = None \<longleftrightarrow> frontmatterMatch (content f) = None"
  by (simp add: parse_post_def split: option.splits)


lemma script_fst_blog: "fst (script P (w\<lparr>blog := b\<rparr>)) = fst (script P w)"
  by (simp add: script_def Let_def split: option.splits sum.splits)


lemma replace_backslashes_append:
  "replace_backslashes (a @ b) = replace_backslashes a @ replace_backslashes b"
  by (simp add: replace_backslashes_def)

lemma reduce_group_fails:
  assumes "\<exists>c\<in>set cs. cve_date c \<in> set Object_prototype_keys"
    and "fst ` set acc \<inter> set Object_prototype_keys = {}"
    and "distinct (map fst acc)"
  shows "reduce_group acc cs = Inl TypeError"
  using assms
proof (induction cs arbitrary: acc)
  case Nil
  then show ?case by simp
next
  case (Cons c cs)
  show ?case
  proof (cases "cve_date c \<in> set Object_prototype_keys")
    case True
    with Cons.prems(2) have "cve_date c \<notin> fst ` set acc" by blast
    then have "map_of acc (cve_date c) = None" by (simp add: map_of_eq_None_iff)
    from group_step_fails[OF True this] show ?thesis by simp
  next
    case False
    from group_step_succeeds[OF False] obtain acc' where s: "group_step acc c = Inr acc'"
      by blast
    note k = group_step_Inr[OF s Cons.prems(3)]
    have "\<exists>c\<in>set cs. cve_date c \<in> set Object_prototype_keys"
      using Cons.prems(1) False by auto
    moreover have "fst ` set acc' \<inter> set Object_prototype_keys = {}"
      unfolding k(3) using Cons.prems(2) False by auto
    ultimately have "reduce_group acc' cs = Inl TypeError"
      using Cons.IH k(1) by blast
    with s show ?thesis by simp
  qed
qed

lemma cvesByYear_fails:
  "\<exists>c\<in>set cves. cve_date c \<in> set Object_prototype_keys \<Longrightarrow> cvesByYear cves = Inl TypeError"
  unfolding cvesByYear_def by (rule reduce_group_fails) simp_all

lemma split_first_sound: "split_first pat s = Some (a, b) \<Longrightarrow> s = a @ pat @ b"
proof (induction s arbitrary: a)
  case Nil
  then show ?case by (simp split: if_splits)
next
  case (Cons c cs)
  show ?case
  proof (cases "prefix pat (c # cs)")
    case True
    with Cons.prems have "a = []" "b = drop (length pat) (c # cs)" by simp_all
    with True show ?thesis by (metis append_Nil append_eq_conv_conj prefixE)
  next
    case False
    with Cons.prems obtain a' where "split_first pat cs = Some (a', b)" "a = c # a'"
      by auto
    with Cons.IH show ?thesis by simp
  qed
qed

subsection \<open>The claims\<close>




text \<open>
  C2, as amended. A document yields no post exactly when it has no leading header block,
  whatever fields a block lacks. A document without a header block is excluded: the list
  of posts, and with it the generated document, is what the other files alone give. No
  document aborts the run: the exit status is the same whatever the blog tree holds.
\<close>

theorem headerless_document_excluded:
  "(parse_post P f = None \<longleftrightarrow> frontmatterMatch (content f) = None)
   \<and> (frontmatterMatch (content f) = None \<longrightarrow>
        blogPosts P (xs @ f # ys) = blogPosts P (xs @ ys)
        \<and> readme (blogPosts P (xs @ f # ys)) groups hs
          = readme (blogPosts P (xs @ ys)) groups hs)
   \<and> fst (script P (w\<lparr>blog := b\<rparr>)) = fst (script P w)"
proof (intro conjI impI)
  show "parse_post P f = None \<longleftrightarrow> frontmatterMatch (content f) = None"
    by (rule parse_post_None_iff)
  show "fst (script P (w\<lparr>blog := b\<rparr>)) = fst (script P w)"
    by (rule script_fst_blog)
next
  assume "frontmatterMatch (content f) = None"
  then have p: "parse_post P f = None"
    by (simp add: parse_post_None_iff)
  show e: "blogPosts P (xs @ f # ys) = blogPosts P (xs @ ys)"
    by (rule blogPosts_skip[OF p])
  show "readme (blogPosts P (xs @ f # ys)) groups hs = readme (blogPosts P (xs @ ys)) groups hs"
    by (simp only: e)
qed

theorem headerless_document_excluded_witness:
  "frontmatterMatch (content \<lparr>content = headerless_post, relativePath = ''notes.md''\<rparr>) = None
   \<and> parse_post demo_platform \<lparr>content = headerless_post, relativePath = ''notes.md''\<rparr> = None
   \<and> blogPosts demo_platform
        ([\<lparr>content = april_post, relativePath = ''april.md''\<rparr>]
         @ \<lparr>content = headerless_post, relativePath = ''notes.md''\<rparr> # [])
       = blogPosts demo_platform ([\<lparr>content = april_post, relativePath = ''april.md''\<rparr>] @ [])
   \<and> fst (script demo_platform
             (\<lparr>cves_json = Some demo_json, blog = [], output_file = None\<rparr>
              \<lparr>blog := [(''notes.md'', File headerless_post)]\<rparr>))
       = fst (script demo_platform \<lparr>cves_json = Some demo_json, blog = [], output_file = None\<rparr>)"
proof -
  have h: "frontmatterMatch (content \<lparr>content = headerless_post, relativePath = ''notes.md''\<rparr>)
           = None"
    by code_simp
  note a = headerless_document_excluded[where P = demo_platform
        and f = "\<lparr>content = headerless_post, relativePath = ''notes.md''\<rparr>"
        and xs = "[\<lparr>content = april_post, relativePath = ''april.md''\<rparr>]" and ys = "[]"
        and groups = "[]" and hs = "[]"
        and w = "\<lparr>cves_json = Some demo_json, blog = [], output_file = None\<rparr>"
        and b = "[(''notes.md'', File headerless_post)]"]
  note p = a[THEN conjunct1, THEN iffD2, OF h]
  note e = a[THEN conjunct2, THEN conjunct1, THEN mp, OF h, THEN conjunct1]
  note s = a[THEN conjunct2, THEN conjunct2]
  show ?thesis by (intro conjI h p e s)
qed

text \<open>
  C2 as stated fails on a document whose header block holds neither a title nor a date:
  it is listed, with an empty title.
\<close>

theorem missing_fields_counterexample:
  "frontmatterMatch undated_post = Some ''draft: true''
   \<and> titleMatch ''draft: true'' = None
   \<and> dateMatch ''draft: true'' = []
   \<and> map post_line (blogPosts demo_platform
         [\<lparr>content = undated_post, relativePath = ''draft.md''\<rparr>])
       = [''  * [](https://jomar.fr/blog/draft/)\<newline>'']"
  by code_simp

text \<open>
  C3, as amended. When every post of the list has a date that parsed (no NaN), the posts of
  the generated list stand in non-increasing order of date, and the posts of any one date
  \<open>d\<close> keep the order in which the files were met: the sort is stable.
\<close>

theorem posts_ordered_when_dated:
  assumes "list_all (\<lambda>p. date p \<noteq> None) (filter_Boolean (map (parse_post P) files))"
  shows "sorted_wrt not_older (blogPosts P files)
         \<and> filter (\<lambda>p. date p = d) (blogPosts P files)
           = filter (\<lambda>p. date p = d) (filter_Boolean (map (parse_post P) files))"
proof
  show "sorted_wrt not_older (blogPosts P files)"
    by (rule blogPosts_sorted) (use assms in \<open>simp add: list_all_iff\<close>)
  show "filter (\<lambda>p. date p = d) (blogPosts P files)
        = filter (\<lambda>p. date p = d) (filter_Boolean (map (parse_post P) files))"
    by (rule blogPosts_stable)
qed

theorem posts_ordered_when_dated_witness:
  "list_all (\<lambda>p. date p \<noteq> None)
     (filter_Boolean (map (parse_post demo_platform)
        [\<lparr>content = april_post, relativePath = ''b.md''\<rparr>,
         \<lparr>content = may_post, relativePath = ''2025/may.md''\<rparr>,
         \<lparr>content = april_post, relativePath = ''a.md''\<rparr>]))
   \<and> sorted_wrt not_older
        (blogPosts demo_platform
        [\<lparr>content = april_post, relativePath = ''b.md''\<rparr>,
         \<lparr>content = may_post, relativePath = ''2025/may.md''\<rparr>,
         \<lparr>content = april_post, relativePath = ''a.md''\<rparr>])
   \<and> map slug
        (blogPosts demo_platform
        [\<lparr>content = april_post, relativePath = ''b.md''\<rparr>,
         \<lparr>content = may_post, relativePath = ''2025/may.md''\<rparr>,
         \<lparr>content = april_post, relativePath = ''a.md''\<rparr>]) = [''2025/may'', ''b'', ''a'']"
proof -
  have h: "list_all (\<lambda>p. date p \<noteq> None)
     (filter_Boolean (map (parse_post demo_platform)
        [\<lparr>content = april_post, relativePath = ''b.md''\<rparr>,
         \<lparr>content = may_post, relativePath = ''2025/may.md''\<rparr>,
         \<lparr>content = april_post, relativePath = ''a.md''\<rparr>]))"
    by code_simp
  have t: "map slug
        (blogPosts demo_platform
        [\<lparr>content = april_post, relativePath = ''b.md''\<rparr>,
         \<lparr>content = may_post, relativePath = ''2025/may.md''\<rparr>,
         \<lparr>content = april_post, relativePath = ''a.md''\<rparr>]) = [''2025/may'', ''b'', ''a'']"
    by code_simp
  show ?thesis using posts_ordered_when_dated[OF h] h t by blast
qed

text \<open>
  C3 as stated fails on a list that holds a post without a parsable date: its comparisons
  are NaN, which the sort takes for equal, so the April post stays in front of the May post.
\<close>

theorem posts_order_counterexample:
  "map date
     (blogPosts demo_platform
        [\<lparr>content = april_post, relativePath = ''2025/april.md''\<rparr>,
         \<lparr>content = undated_post, relativePath = ''draft.md''\<rparr>,
         \<lparr>content = may_post, relativePath = ''2025/may.md''\<rparr>])
   = [Some 1744416000000, None, Some 1747526400000]
   \<and> \<not> sorted_wrt not_older
        (blogPosts demo_platform
           [\<lparr>content = april_post, relativePath = ''2025/april.md''\<rparr>,
            \<lparr>content = undated_post, relativePath = ''draft.md''\<rparr>,
            \<lparr>content = may_post, relativePath = ''2025/may.md''\<rparr>])"
  by code_simp



text \<open>
  C5. When the advisory file cannot be read, or its text does not parse, the run ends with
  an uncaught exception, the exit code is not zero, and nothing has been written: the
  world, and so the output file, is as it was.
\<close>

theorem unloadable_advisories_abort:
  assumes "case cves_json w of None \<Rightarrow> True | Some text \<Rightarrow> JSON_parse P text = None"
  shows "(\<exists>e. fst (script P w) = Uncaught e)
    \<and> exit_code (fst (script P w)) \<noteq> 0
    \<and> snd (script P w) = w
    \<and> output_file (snd (script P w)) = output_file w"
  using assms by (auto simp: script_def exit_code_def split: option.splits)

theorem unloadable_advisories_abort_witness:
  "(case cves_json \<lparr>cves_json = Some ''{'', blog = [], output_file = Some ''old''\<rparr> of
      None \<Rightarrow> True | Some text \<Rightarrow> JSON_parse demo_platform text = None)
   \<and> (case cves_json \<lparr>cves_json = None, blog = [], output_file = Some ''old''\<rparr> of
      None \<Rightarrow> True | Some text \<Rightarrow> JSON_parse demo_platform text = None)
   \<and> script demo_platform \<lparr>cves_json = Some ''{'', blog = [], output_file = Some ''old''\<rparr>
       = (Uncaught SyntaxError, \<lparr>cves_json = Some ''{'', blog = [], output_file = Some ''old''\<rparr>)
   \<and> output_file (snd (script demo_platform
          \<lparr>cves_json = Some ''{'', blog = [], output_file = Some ''old''\<rparr>)) = Some ''old''
   \<and> output_file (snd (script demo_platform
          \<lparr>cves_json = None, blog = [], output_file = Some ''old''\<rparr>)) = Some ''old''"
proof -
  have h1: "case cves_json \<lparr>cves_json = Some ''{'', blog = [], output_file = Some ''old''\<rparr> of
      None \<Rightarrow> True | Some text \<Rightarrow> JSON_parse demo_platform text = None"
    by code_simp
  have h2: "case cves_json \<lparr>cves_json = None, blog = [], output_file = Some ''old''\<rparr> of
      None \<Rightarrow> True | Some text \<Rightarrow> JSON_parse demo_platform text = None"
    by simp
  have s: "script demo_platform \<lparr>cves_json = Some ''{'', blog = [], output_file = Some ''old''\<rparr>
       = (Uncaught SyntaxError, \<lparr>cves_json = Some ''{'', blog = [], output_file = Some ''old''\<rparr>)"
    by code_simp
  show ?thesis
    using unloadable_advisories_abort[OF h1] unloadable_advisories_abort[OF h2] h1 h2 s
    by simp
qed







text \<open>
  C9. Only the first \<^verbatim>\<open>.md\<close> of the relative path is removed. When the path has a
  later one at its end (a directory or a base name that itself contains
  \<^verbatim>\<open>.md\<close>), the slug still ends in \<^verbatim>\<open>.md\<close> and the URL of the post carries it.
\<close>

theorem slug_keeps_later_md:
  assumes "split_first ''.md'' path = Some (a, b)" and "suffix ''.md'' b"
  shows "path = a @ ''.md'' @ b
    \<and> slug_of path = replace_backslashes (a @ b)
    \<and> suffix ''.md'' (slug_of path)
    \<and> suffix ''.md/'' (post_url \<lparr>title = t, date = d, slug = slug_of path\<rparr>)"
proof -
  from assms(2) obtain b0 where b: "b = b0 @ ''.md''" by (auto simp: suffix_def)
  have s: "slug_of path = replace_backslashes (a @ b)"
    using assms(1) by (simp add: slug_of_def replace_first_def)
  have "replace_backslashes (a @ b) = replace_backslashes (a @ b0) @ ''.md''"
    unfolding b by (simp add: replace_backslashes_def)
  with s have e: "slug_of path = replace_backslashes (a @ b0) @ ''.md''" by simp
  have "suffix ''.md'' (slug_of path)"
    unfolding e suffix_def by blast
  moreover have "post_url \<lparr>title = t, date = d, slug = slug_of path\<rparr>
      = (''https://jomar.fr/blog/'' @ replace_backslashes (a @ b0)) @ ''.md/''"
    by (simp add: post_url_def e)
  then have "suffix ''.md/'' (post_url \<lparr>title = t, date = d, slug = slug_of path\<rparr>)"
    unfolding suffix_def by blast
  ultimately show ?thesis using s split_first_sound[OF assms(1)] by blast
qed

theorem slug_keeps_later_md_witness:
  "map relativePath (findMarkdownFiles (sep demo_platform) []
      [(''notes.md'', Directory [(''may.md'', File may_post)])]) = [''notes.md/may.md'']
   \<and> split_first ''.md'' ''notes.md/may.md'' = Some (''notes'', ''/may.md'')
   \<and> suffix ''.md'' ''/may.md''
   \<and> slug_of ''notes.md/may.md'' = ''notes/may.md''
   \<and> suffix ''.md'' (slug_of ''notes.md/may.md'')
   \<and> map post_url (blogPosts demo_platform (findMarkdownFiles (sep demo_platform) []
         [(''notes.md'', Directory [(''may.md'', File may_post)])]))
       = [''https://jomar.fr/blog/notes/may.md/'']"
proof -
  have f: "map relativePath (findMarkdownFiles (sep demo_platform) []
      [(''notes.md'', Directory [(''may.md'', File may_post)])]) = [''notes.md/may.md'']"
    by code_simp
  have h1: "split_first ''.md'' ''notes.md/may.md'' = Some (''notes'', ''/may.md'')"
    by code_simp
  have h2: "suffix ''.md'' ''/may.md''" by code_simp
  have s: "slug_of ''notes.md/may.md'' = ''notes/may.md''" by code_simp
  have u: "map post_url (blogPosts demo_platform (findMarkdownFiles (sep demo_platform) []
         [(''notes.md'', Directory [(''may.md'', File may_post)])]))
       = [''https://jomar.fr/blog/notes/may.md/'']"
    by code_simp
  show ?thesis
    using slug_keeps_later_md[OF h1 h2] f h1 h2 s u by blast
qed

text \<open>
  C10 fails in the code on a year field that names a property every object inherits, such
  as \<^verbatim>\<open>constructor\<close>: the reducer finds the inherited function where it expects its
  own array, and the call of \<^verbatim>\<open>push\<close> raises a TypeError. The run ends there and
  writes nothing, so the advisory has no line at all.
\<close>

theorem prototype_year_aborts:
  "cvesByYear
     [\<lparr>cve_id = ''CVE-2024-0001'', cve_date = ''constructor'', cve_type = ''XSS'',
       cve_target = ''Example'', cve_link = ''https://example.org/d''\<rparr>] = Inl TypeError
   \<and> JSON_parse demo_platform prototype_json
       = Some [\<lparr>cve_id = ''CVE-2024-0001'', cve_date = ''constructor'', cve_type = ''XSS'',
                cve_target = ''Example'', cve_link = ''https://example.org/d''\<rparr>]
   \<and> script demo_platform \<lparr>cves_json = Some prototype_json, blog = [], output_file = None\<rparr>
       = (Uncaught TypeError, \<lparr>cves_json = Some prototype_json, blog = [], output_file = None\<rparr>)"
  by code_simp

end
